theory Spec2Isabelle
  imports Complex_Main
begin

section \<open>Python values\<close>

text \<open>
  A Python \<open>str\<close> is a sequence of Unicode code points: \<open>len\<close> and slicing count code
  points, and several literals of the sources are Japanese. A string is therefore a list
  of code points; \<open>ascii\<close> turns an ASCII literal into one.
\<close>

type_synonym pystr = "nat list"

definition ascii :: "string \<Rightarrow> pystr" where
  "ascii s = map of_char s"

text \<open>The values found in the \<open>metadata\<close> dict of a document: strings and integers.\<close>

datatype MetaValue = MStr pystr | MInt int

fun digits :: "nat \<Rightarrow> pystr" where
  "digits n = (if n < 10 then [48 + n] else digits (n div 10) @ [48 + n mod 10])"

definition str_int :: "int \<Rightarrow> pystr" where
  "str_int i = (if i < 0 then 45 # digits (nat (- i)) else digits (nat i))"

text \<open>\<open>str(v)\<close> and the truth value of \<open>v\<close> in a condition.\<close>

fun py_str :: "MetaValue \<Rightarrow> pystr" where
  "py_str (MStr s) = s"
| "py_str (MInt i) = str_int i"

fun truthy :: "MetaValue \<Rightarrow> bool" where
  "truthy (MStr s) = (s \<noteq> [])"
| "truthy (MInt i) = (i \<noteq> 0)"

text \<open>\<open>sep.join(parts)\<close>.\<close>

fun join :: "pystr \<Rightarrow> pystr list \<Rightarrow> pystr" where
  "join sep [] = []"
| "join sep [p] = p"
| "join sep (p # q # ps) = p @ sep @ join sep (q # ps)"

section \<open>Data model\<close>

text \<open>langchain's \<open>Document\<close>: the text and a metadata dict.\<close>

record Document =
  page_content :: pystr
  metadata :: "(pystr \<times> MetaValue) list"

text \<open>\<open>doc.metadata.get(key, default)\<close>.\<close>

definition metadata_get :: "Document \<Rightarrow> pystr \<Rightarrow> MetaValue \<Rightarrow> MetaValue" where
  "metadata_get doc key dflt =
     (case map_of (metadata doc) key of None \<Rightarrow> dflt | Some v \<Rightarrow> v)"

text \<open>The literal \<open>"\<dots>"\<close> of two CJK characters (U+4E0D U+660E, "unknown") used as the
  default source.\<close>

definition UNKNOWN_SOURCE :: pystr where
  "UNKNOWN_SOURCE = [19981, 26126]"

text \<open>
  Exceptions. \<open>KeyError\<close> is a subscript on a missing key of the state dict,
  \<open>ValidationError\<close> a value refused by a pydantic model (named by the model),
  \<open>CapabilityError\<close> anything raised inside the language model, the embedding service
  or the vector store, \<open>HTTPException\<close> the one raised by a route with its status code.
\<close>

datatype error =
    KeyError string
  | ValidationError string
  | CapabilityError pystr
  | HTTPException nat pystr

text \<open>\<open>src/chains/query_analyzer.py\<close>: the structured output \<open>SearchQueries\<close>, with
  \<open>min_length=1\<close> and \<open>max_length=5\<close> on \<open>queries\<close>.\<close>

record SearchQueries =
  queries :: "pystr list"
  intent :: pystr

definition SearchQueries_validate :: "SearchQueries \<Rightarrow> error + SearchQueries" where
  "SearchQueries_validate r =
     (if 1 \<le> length (queries r) \<and> length (queries r) \<le> 5 then Inr r
      else Inl (ValidationError ''SearchQueries''))"

text \<open>\<open>src/chains/evaluator.py\<close>: the structured output \<open>EvaluationResult\<close>, with
  \<open>ge=0.0\<close> and \<open>le=1.0\<close> on \<open>score\<close>; \<open>missing_info\<close> defaults to the empty string.\<close>

record EvaluationResult =
  ev_is_sufficient :: bool
  ev_score :: real
  ev_reason :: pystr
  ev_missing_info :: pystr

definition EvaluationResult_validate :: "EvaluationResult \<Rightarrow> error + EvaluationResult" where
  "EvaluationResult_validate r =
     (if 0 \<le> ev_score r \<and> ev_score r \<le> 1 then Inr r
      else Inl (ValidationError ''EvaluationResult''))"

text \<open>
  \<open>src/agent/state.py\<close>: \<open>RAGAgentState\<close> is a dict. A key read with \<open>state.get\<close> or
  \<open>state[...]\<close> may be absent, so every plain field is optional;
  \<open>retrieved_documents\<close> is the field annotated with \<open>operator.add\<close>, whose value is a
  list from the start.
\<close>

record RAGAgentState =
  query :: "pystr option"
  search_queries :: "pystr list option"
  retrieved_documents :: "Document list"
  answer :: "pystr option"
  is_sufficient :: "bool option"
  evaluation_reason :: "pystr option"
  iteration :: "int option"

text \<open>
  The dict a node returns holds only the keys it updates. Merging it into the state
  overwrites a plain key and, for \<open>retrieved_documents\<close>, applies \<open>operator.add\<close> to the
  old and the new list.
\<close>

record StateUpdate =
  upd_query :: "pystr option"
  upd_search_queries :: "pystr list option"
  upd_retrieved_documents :: "Document list option"
  upd_answer :: "pystr option"
  upd_is_sufficient :: "bool option"
  upd_evaluation_reason :: "pystr option"
  upd_iteration :: "int option"

definition no_update :: StateUpdate where
  "no_update = \<lparr>upd_query = None, upd_search_queries = None,
     upd_retrieved_documents = None, upd_answer = None, upd_is_sufficient = None,
     upd_evaluation_reason = None, upd_iteration = None\<rparr>"

definition overwrite :: "'a option \<Rightarrow> 'a option \<Rightarrow> 'a option" where
  "overwrite old new = (case new of None \<Rightarrow> old | Some v \<Rightarrow> Some v)"

definition merge_state :: "RAGAgentState \<Rightarrow> StateUpdate \<Rightarrow> RAGAgentState" where
  "merge_state state u =
     \<lparr>query = overwrite (query state) (upd_query u),
      search_queries = overwrite (search_queries state) (upd_search_queries u),
      retrieved_documents =
        (case upd_retrieved_documents u of
           None \<Rightarrow> retrieved_documents state
         | Some docs \<Rightarrow> retrieved_documents state @ docs),
      answer = overwrite (answer state) (upd_answer u),
      is_sufficient = overwrite (is_sufficient state) (upd_is_sufficient u),
      evaluation_reason = overwrite (evaluation_reason state) (upd_evaluation_reason u),
      iteration = overwrite (iteration state) (upd_iteration u)\<rparr>"

text \<open>\<open>state.get("iteration", 0)\<close> and \<open>state.get("is_sufficient", False)\<close>.\<close>

definition get_iteration :: "RAGAgentState \<Rightarrow> int" where
  "get_iteration state = (case iteration state of None \<Rightarrow> 0 | Some i \<Rightarrow> i)"

definition get_is_sufficient :: "RAGAgentState \<Rightarrow> bool" where
  "get_is_sufficient state = (case is_sufficient state of None \<Rightarrow> False | Some b \<Rightarrow> b)"

section \<open>The capabilities\<close>

text \<open>
  The language model, the embedding service and the vector store are outside the
  repository. Each call takes the state of that outside world and returns its result, or
  the exception it raised, with the world after the call; nothing is assumed about them.
  \<open>llm_search_queries\<close> and \<open>llm_evaluation\<close> are the structured outputs before the
  pydantic model has checked them.
\<close>

record 'w capabilities =
  llm_search_queries :: "pystr \<Rightarrow> 'w \<Rightarrow> (error + SearchQueries) \<times> 'w"
  similarity_search :: "pystr \<Rightarrow> nat \<Rightarrow> 'w \<Rightarrow> (error + Document list) \<times> 'w"
  llm_answer :: "pystr \<Rightarrow> pystr \<Rightarrow> 'w \<Rightarrow> (error + pystr) \<times> 'w"
  llm_evaluation :: "pystr \<Rightarrow> pystr \<Rightarrow> 'w \<Rightarrow> (error + EvaluationResult) \<times> 'w"

text \<open>\<open>query_analyzer.invoke({"question": question})\<close>: the model's output, checked
  against \<open>SearchQueries\<close>.\<close>

definition query_analyzer_invoke ::
  "'w capabilities \<Rightarrow> pystr \<Rightarrow> 'w \<Rightarrow> (error + SearchQueries) \<times> 'w" where
  "query_analyzer_invoke caps question w =
     (case llm_search_queries caps question w of
        (Inl e, w') \<Rightarrow> (Inl e, w')
      | (Inr r, w') \<Rightarrow> (SearchQueries_validate r, w'))"

text \<open>\<open>evaluator.invoke({"question": q, "answer": a})\<close>, checked against
  \<open>EvaluationResult\<close>.\<close>

definition evaluator_invoke ::
  "'w capabilities \<Rightarrow> pystr \<Rightarrow> pystr \<Rightarrow> 'w \<Rightarrow> (error + EvaluationResult) \<times> 'w" where
  "evaluator_invoke caps q a w =
     (case llm_evaluation caps q a w of
        (Inl e, w') \<Rightarrow> (Inl e, w')
      | (Inr r, w') \<Rightarrow> (EvaluationResult_validate r, w'))"

section \<open>The nodes of the agent\<close>

text \<open>
  \<open>src/agent/nodes.py\<close>, \<open>analyze_query\<close>. On a retry (\<open>iteration > 0\<close> and a non-empty
  \<open>evaluation_reason\<close>) the question sent to the analyzer is the f-string
  \<open>query + "\n\n" + RETRY_LACKING + evaluation_reason + "\n" + RETRY_INSTRUCTION\<close>, where
  the two constants are the Japanese sentences of the source ("the previous search lacked
  the following: " and "generate search queries that make up for this lack."), given by
  their code points.
\<close>

definition RETRY_LACKING :: pystr where
  "RETRY_LACKING = [21069, 22238, 12398, 26908, 32034, 12391, 12399, 20197, 19979, 12364,
     19981, 36275, 12375, 12390, 12356, 12414, 12375, 12383, 58, 32]"

definition RETRY_INSTRUCTION :: pystr where
  "RETRY_INSTRUCTION = [12371, 12398, 19981, 36275, 12434, 35036, 12358, 26908, 32034,
     12463, 12456, 12522, 12434, 29983, 25104, 12375, 12390, 12367, 12384, 12373, 12356,
     12290]"

definition retry_question :: "pystr \<Rightarrow> pystr \<Rightarrow> pystr" where
  "retry_question q reason =
     q @ [10, 10] @ RETRY_LACKING @ reason @ [10] @ RETRY_INSTRUCTION"

definition analyzer_question :: "RAGAgentState \<Rightarrow> pystr \<Rightarrow> pystr" where
  "analyzer_question state q =
     (case evaluation_reason state of
        None \<Rightarrow> q
      | Some reason \<Rightarrow>
          if get_iteration state > 0 \<and> reason \<noteq> [] then retry_question q reason else q)"

definition analyze_query ::
  "'w capabilities \<Rightarrow> RAGAgentState \<Rightarrow> 'w \<Rightarrow> (error + StateUpdate) \<times> 'w" where
  "analyze_query caps state w =
     (case query state of
        None \<Rightarrow> (Inl (KeyError ''query''), w)
      | Some q \<Rightarrow>
          (case query_analyzer_invoke caps (analyzer_question state q) w of
             (Inl e, w') \<Rightarrow> (Inl e, w')
           | (Inr result, w') \<Rightarrow>
               (Inr (no_update\<lparr>upd_search_queries := Some (queries result)\<rparr>), w')))"

text \<open>
  \<open>retrieve_documents\<close>. The first loop searches with each query in turn, always with
  \<open>k=3\<close>, and extends \<open>all_documents\<close>; the second keeps a document when its
  \<open>page_content\<close> is not yet in \<open>seen_contents\<close>.
\<close>

fun search_loop ::
  "'w capabilities \<Rightarrow> pystr list \<Rightarrow> Document list \<Rightarrow> 'w \<Rightarrow> (error + Document list) \<times> 'w" where
  "search_loop caps [] all_documents w = (Inr all_documents, w)"
| "search_loop caps (q # qs) all_documents w =
     (case similarity_search caps q 3 w of
        (Inl e, w') \<Rightarrow> (Inl e, w')
      | (Inr docs, w') \<Rightarrow> search_loop caps qs (all_documents @ docs) w')"

fun unique_loop :: "Document list \<Rightarrow> pystr set \<Rightarrow> Document list \<Rightarrow> Document list" where
  "unique_loop [] seen_contents unique_documents = unique_documents"
| "unique_loop (doc # rest) seen_contents unique_documents =
     (if page_content doc \<notin> seen_contents
      then unique_loop rest (insert (page_content doc) seen_contents) (unique_documents @ [doc])
      else unique_loop rest seen_contents unique_documents)"

definition retrieve_documents ::
  "'w capabilities \<Rightarrow> RAGAgentState \<Rightarrow> 'w \<Rightarrow> (error + StateUpdate) \<times> 'w" where
  "retrieve_documents caps state w =
     (case search_queries state of
        None \<Rightarrow> (Inl (KeyError ''search_queries''), w)
      | Some qs \<Rightarrow>
          (case search_loop caps qs [] w of
             (Inl e, w') \<Rightarrow> (Inl e, w')
           | (Inr all_documents, w') \<Rightarrow>
               (Inr (no_update\<lparr>upd_retrieved_documents :=
                       Some (unique_loop all_documents {} [])\<rparr>), w')))"

text \<open>
  \<open>src/chains/answer_generator.py\<close>, \<open>format_documents\<close>: part \<open>i\<close> (from 1) is
  \<open>"[" + DOC_LABEL + str(i) + "] " + source_info + "\n" + page_content\<close>, and the parts
  are joined by \<open>"\n\n---\n\n"\<close>. \<open>DOC_LABEL\<close> and \<open>SOURCE_LABEL\<close> are the Japanese
  words for "document" and "source: ".
\<close>

definition DOC_LABEL :: pystr where
  "DOC_LABEL = [25991, 26360]"

definition SOURCE_LABEL :: pystr where
  "SOURCE_LABEL = [20986, 20856, 58, 32]"

definition format_part :: "nat \<Rightarrow> Document \<Rightarrow> pystr" where
  "format_part i doc =
     (let source = metadata_get doc (ascii ''source'') (MStr UNKNOWN_SOURCE);
          page = metadata_get doc (ascii ''page'') (MStr []);
          source_info = SOURCE_LABEL @ py_str source;
          source_info = (if truthy page
                         then source_info @ ascii '' (p.'' @ py_str page @ ascii '')''
                         else source_info)
      in ascii ''['' @ DOC_LABEL @ digits i @ ascii ''] '' @ source_info @ [10]
           @ page_content doc)"

fun format_parts :: "nat \<Rightarrow> Document list \<Rightarrow> pystr list" where
  "format_parts i [] = []"
| "format_parts i (doc # docs) = format_part i doc # format_parts (Suc i) docs"

definition format_documents :: "Document list \<Rightarrow> pystr" where
  "format_documents documents =
     join [10, 10, 45, 45, 45, 10, 10] (format_parts 1 documents)"

text \<open>\<open>generate_answer\<close>: the context is built from the whole accumulated list.\<close>

definition generate_answer ::
  "'w capabilities \<Rightarrow> RAGAgentState \<Rightarrow> 'w \<Rightarrow> (error + StateUpdate) \<times> 'w" where
  "generate_answer caps state w =
     (let context = format_documents (retrieved_documents state)
      in case query state of
           None \<Rightarrow> (Inl (KeyError ''query''), w)
         | Some q \<Rightarrow>
             (case llm_answer caps q context w of
                (Inl e, w') \<Rightarrow> (Inl e, w')
              | (Inr a, w') \<Rightarrow> (Inr (no_update\<lparr>upd_answer := Some a\<rparr>), w')))"

text \<open>\<open>evaluate_answer\<close>: the verdict and the reason of the evaluation go into the state,
  and \<open>iteration\<close> becomes \<open>state.get("iteration", 0) + 1\<close>.\<close>

definition evaluate_answer ::
  "'w capabilities \<Rightarrow> RAGAgentState \<Rightarrow> 'w \<Rightarrow> (error + StateUpdate) \<times> 'w" where
  "evaluate_answer caps state w =
     (case query state of
        None \<Rightarrow> (Inl (KeyError ''query''), w)
      | Some q \<Rightarrow>
          (case answer state of
             None \<Rightarrow> (Inl (KeyError ''answer''), w)
           | Some a \<Rightarrow>
               (case evaluator_invoke caps q a w of
                  (Inl e, w') \<Rightarrow> (Inl e, w')
                | (Inr result, w') \<Rightarrow>
                    (Inr (no_update\<lparr>upd_is_sufficient := Some (ev_is_sufficient result),
                            upd_evaluation_reason := Some (ev_reason result),
                            upd_iteration := Some (get_iteration state + 1)\<rparr>), w'))))"

section \<open>The graph\<close>

text \<open>\<open>src/agent/graph.py\<close>.\<close>

definition MAX_ITERATIONS :: int where
  "MAX_ITERATIONS = 3"

definition should_retry :: "RAGAgentState \<Rightarrow> string" where
  "should_retry state =
     (if get_is_sufficient state then ''end''
      else if get_iteration state \<ge> MAX_ITERATIONS then ''end''
      else ''retry'')"

text \<open>
  \<open>create_rag_agent\<close> registers four nodes, enters at \<open>analyze_query\<close>, connects them in
  a line and leaves \<open>evaluate_answer\<close> by the conditional edge: \<open>should_retry\<close> picks the
  key of the mapping \<open>{"retry": "analyze_query", "end": END}\<close>, and returns no other
  key than these two.
\<close>

datatype node = N_analyze_query | N_retrieve_documents | N_generate_answer
  | N_evaluate_answer | END

fun node_function ::
  "'w capabilities \<Rightarrow> node \<Rightarrow> RAGAgentState \<Rightarrow> 'w \<Rightarrow> (error + StateUpdate) \<times> 'w" where
  "node_function caps N_analyze_query = analyze_query caps"
| "node_function caps N_retrieve_documents = retrieve_documents caps"
| "node_function caps N_generate_answer = generate_answer caps"
| "node_function caps N_evaluate_answer = evaluate_answer caps"
| "node_function caps END = (\<lambda>state w. (Inr no_update, w))"

definition conditional_edge :: "string \<Rightarrow> node" where
  "conditional_edge key = (if key = ''retry'' then N_analyze_query else END)"

fun next_node :: "node \<Rightarrow> RAGAgentState \<Rightarrow> node" where
  "next_node N_analyze_query state = N_retrieve_documents"
| "next_node N_retrieve_documents state = N_generate_answer"
| "next_node N_generate_answer state = N_evaluate_answer"
| "next_node N_evaluate_answer state = conditional_edge (should_retry state)"
| "next_node END state = END"

text \<open>
  Running the compiled graph: the node's update is merged into the state, and the edge
  out of the node is followed with the merged state, until \<open>END\<close> is reached or a node
  raises. Beside the result and the world, the run returns the nodes it executed, in
  order. The recursion is not structural; the measure below decreases along every edge,
  because only \<open>evaluate_answer\<close> changes \<open>iteration\<close>, by adding one, and the edge back to
  \<open>analyze_query\<close> is taken only below \<open>MAX_ITERATIONS\<close>.
\<close>

definition graph_measure :: "node \<Rightarrow> RAGAgentState \<Rightarrow> nat" where
  "graph_measure n state =
     (case n of
        END \<Rightarrow> 0
      | N_evaluate_answer \<Rightarrow> 1 + 4 * nat (MAX_ITERATIONS - 1 - get_iteration state)
      | N_generate_answer \<Rightarrow> 2 + 4 * nat (MAX_ITERATIONS - 1 - get_iteration state)
      | N_retrieve_documents \<Rightarrow> 3 + 4 * nat (MAX_ITERATIONS - 1 - get_iteration state)
      | N_analyze_query \<Rightarrow> 4 + 4 * nat (MAX_ITERATIONS - 1 - get_iteration state))"

lemma get_iteration_merge:
  "get_iteration (merge_state s u) =
     (case upd_iteration u of None \<Rightarrow> get_iteration s | Some i \<Rightarrow> i)"
  by (simp add: get_iteration_def merge_state_def overwrite_def split: option.splits)

lemma analyze_query_upd:
  "analyze_query caps s w = (Inr u, w') \<Longrightarrow>
     \<exists>qs. u = no_update\<lparr>upd_search_queries := Some qs\<rparr>"
  by (auto simp: analyze_query_def split: option.splits sum.splits prod.splits)

lemma retrieve_documents_upd:
  "retrieve_documents caps s w = (Inr u, w') \<Longrightarrow>
     \<exists>ds. u = no_update\<lparr>upd_retrieved_documents := Some ds\<rparr>"
  by (auto simp: retrieve_documents_def split: option.splits sum.splits prod.splits)

lemma generate_answer_upd:
  "generate_answer caps s w = (Inr u, w') \<Longrightarrow>
     \<exists>a. u = no_update\<lparr>upd_answer := Some a\<rparr>"
  by (auto simp: generate_answer_def Let_def split: option.splits sum.splits prod.splits)

lemma evaluate_answer_upd:
  "evaluate_answer caps s w = (Inr u, w') \<Longrightarrow>
     \<exists>b r. u = no_update\<lparr>upd_is_sufficient := Some b, upd_evaluation_reason := Some r,
               upd_iteration := Some (get_iteration s + 1)\<rparr>"
  by (auto simp: evaluate_answer_def split: option.splits sum.splits prod.splits)

lemma node_function_iteration:
  assumes "node_function caps n s w = (Inr u, w')"
  shows "get_iteration (merge_state s u) =
           (if n = N_evaluate_answer then get_iteration s + 1 else get_iteration s)"
proof (cases n)
  case N_analyze_query
  with assms analyze_query_upd [of caps s w u w'] show ?thesis
    by (auto simp: get_iteration_merge no_update_def)
next
  case N_retrieve_documents
  with assms retrieve_documents_upd [of caps s w u w'] show ?thesis
    by (auto simp: get_iteration_merge no_update_def)
next
  case N_generate_answer
  with assms generate_answer_upd [of caps s w u w'] show ?thesis
    by (auto simp: get_iteration_merge no_update_def)
next
  case N_evaluate_answer
  with assms evaluate_answer_upd [of caps s w u w'] show ?thesis
    by (auto simp: get_iteration_merge no_update_def)
next
  case END
  with assms show ?thesis
    by (auto simp: get_iteration_merge no_update_def)
qed

lemma graph_measure_decreases:
  assumes "n \<noteq> END" and "node_function caps n s w = (Inr u, w')"
  shows "graph_measure (next_node n (merge_state s u)) (merge_state s u) < graph_measure n s"
  using assms(1) node_function_iteration [OF assms(2)]
  by (cases n)
     (auto simp: graph_measure_def conditional_edge_def should_retry_def MAX_ITERATIONS_def)

function run_graph ::
  "'w capabilities \<Rightarrow> node \<Rightarrow> RAGAgentState \<Rightarrow> 'w
     \<Rightarrow> (error + RAGAgentState) \<times> node list \<times> 'w" where
  "run_graph caps n state w =
     (if n = END then (Inr state, [], w)
      else case node_function caps n state w of
             (Inl e, w') \<Rightarrow> (Inl e, [n], w')
           | (Inr u, w') \<Rightarrow>
               (let state' = merge_state state u;
                    (r, trace, w'') = run_graph caps (next_node n state') state' w'
                in (r, n # trace, w'')))"
  by pat_completeness auto
termination
proof (relation "measure (\<lambda>(caps, n, state, w). graph_measure n state)")
  show "wf (measure (\<lambda>(caps :: 'w capabilities, n, state, w :: 'w). graph_measure n state))"
    by simp
next
  fix caps :: "'w capabilities" and n state w x1 w' u state'
  assume "n \<noteq> END" and "(x1, w') = node_function caps n state w" and "x1 = Inr u"
    and "state' = merge_state state u"
  then show "((caps, next_node n state', state', w'), (caps, n, state, w))
               \<in> measure (\<lambda>(caps, n, state, w). graph_measure n state)"
    using graph_measure_decreases [of n caps state w u w'] by simp
qed

declare run_graph.simps [simp del]

text \<open>\<open>agent.invoke(input)\<close>: the run starts at the entry point with the input as state.\<close>

definition agent_invoke ::
  "'w capabilities \<Rightarrow> RAGAgentState \<Rightarrow> 'w \<Rightarrow> (error + RAGAgentState) \<times> node list \<times> 'w" where
  "agent_invoke caps input w = run_graph caps N_analyze_query input w"

section \<open>The HTTP routes\<close>

text \<open>\<open>src/api/schemas.py\<close>. The request reaches the route already validated
  (\<open>question\<close> non-empty, \<open>top_k\<close> from 1 to 20). \<open>SourceDocument\<close> declares
  \<open>source: str\<close>, so building one from a metadata value that is no string is refused.\<close>

record QueryRequest =
  question :: pystr
  top_k :: int

record SourceDocument =
  content :: pystr
  source :: pystr
  page :: pystr

record QueryResponse =
  resp_answer :: pystr
  resp_sources :: "SourceDocument list"
  resp_is_sufficient :: bool
  resp_iterations :: int

definition SourceDocument_init ::
  "pystr \<Rightarrow> MetaValue \<Rightarrow> pystr \<Rightarrow> error + SourceDocument" where
  "SourceDocument_init c src p =
     (case src of
        MStr s \<Rightarrow> Inr \<lparr>content = c, source = s, page = p\<rparr>
      | MInt i \<Rightarrow> Inl (ValidationError ''SourceDocument''))"

text \<open>\<open>src/api/routes.py\<close>, \<open>query\<close>. The state the agent is invoked with:\<close>

definition initial_state :: "QueryRequest \<Rightarrow> RAGAgentState" where
  "initial_state request =
     \<lparr>query = Some (question request), search_queries = Some [],
      retrieved_documents = [], answer = Some [], is_sufficient = Some False,
      evaluation_reason = Some [], iteration = Some 0\<rparr>"

text \<open>\<open>doc.page_content[:200] + "..." if len(doc.page_content) > 200 else
  doc.page_content\<close>: the conditional expression binds weaker than \<open>+\<close>.\<close>

definition excerpt :: "pystr \<Rightarrow> pystr" where
  "excerpt text = (if length text > 200 then take 200 text @ ascii ''...'' else text)"

definition source_key :: "Document \<Rightarrow> MetaValue" where
  "source_key doc = metadata_get doc (ascii ''source'') (MStr UNKNOWN_SOURCE)"

definition make_source :: "Document \<Rightarrow> error + SourceDocument" where
  "make_source doc =
     SourceDocument_init (excerpt (page_content doc))
       (metadata_get doc (ascii ''source'') (MStr UNKNOWN_SOURCE))
       (py_str (metadata_get doc (ascii ''page'') (MStr [])))"

fun sources_loop ::
  "Document list \<Rightarrow> MetaValue set \<Rightarrow> SourceDocument list \<Rightarrow> error + SourceDocument list" where
  "sources_loop [] seen_sources sources = Inr sources"
| "sources_loop (doc # rest) seen_sources sources =
     (if source_key doc \<notin> seen_sources
      then (case make_source doc of
              Inl e \<Rightarrow> Inl e
            | Inr sd \<Rightarrow> sources_loop rest (insert (source_key doc) seen_sources) (sources @ [sd]))
      else sources_loop rest seen_sources sources)"

text \<open>The default answer of \<open>result.get("answer", \<dots>)\<close>, a Japanese sentence ("could not
  generate an answer").\<close>

definition NO_ANSWER :: pystr where
  "NO_ANSWER = [22238, 31572, 12434, 29983, 25104, 12391, 12365, 12414, 12379, 12435,
     12391, 12375, 12383]"

definition query_route ::
  "'w capabilities \<Rightarrow> QueryRequest \<Rightarrow> 'w \<Rightarrow> (error + QueryResponse) \<times> 'w" where
  "query_route caps request w =
     (case agent_invoke caps (initial_state request) w of
        (Inl e, trace, w') \<Rightarrow> (Inl e, w')
      | (Inr result, trace, w') \<Rightarrow>
          (case sources_loop (retrieved_documents result) {} [] of
             Inl e \<Rightarrow> (Inl e, w')
           | Inr sources \<Rightarrow>
               (Inr \<lparr>resp_answer = (case answer result of None \<Rightarrow> NO_ANSWER | Some a \<Rightarrow> a),
                     resp_sources = sources,
                     resp_is_sufficient = get_is_sufficient result,
                     resp_iterations = get_iteration result\<rparr>, w')))"

text \<open>
  \<open>upload_document\<close>. What the route calls outside itself is a parameter: the standard
  library's \<open>Path(name).suffix\<close> and \<open>str.lower\<close>, the temporary file that receives the
  uploaded bytes and gives its path, the two loaders and the splitter (thin wrappers of
  library classes in \<open>src/rag\<close>), the vector store's \<open>add_documents\<close>, and the removal of
  the temporary file.
\<close>

record UploadFile =
  filename :: "pystr option"
  file_bytes :: "nat list"

record Settings =
  chunk_size :: int
  chunk_overlap :: int

record UploadResponse =
  message :: pystr
  document_count :: nat

record 'w upload_env =
  path_suffix :: "pystr \<Rightarrow> pystr"
  str_lower :: "pystr \<Rightarrow> pystr"
  save_temp :: "nat list \<Rightarrow> pystr \<Rightarrow> 'w \<Rightarrow> (error + pystr) \<times> 'w"
  load_pdf :: "pystr \<Rightarrow> 'w \<Rightarrow> (error + Document list) \<times> 'w"
  load_markdown :: "pystr \<Rightarrow> 'w \<Rightarrow> (error + Document list) \<times> 'w"
  split_documents :: "Document list \<Rightarrow> int \<Rightarrow> int \<Rightarrow> error + Document list"
  add_documents :: "Document list \<Rightarrow> 'w \<Rightarrow> (error + unit) \<times> 'w"
  unlink :: "pystr \<Rightarrow> 'w \<Rightarrow> (error + unit) \<times> 'w"

definition UNSUPPORTED_PREFIX :: pystr where
  "UNSUPPORTED_PREFIX = [26410, 23550, 24540, 12398, 12501, 12449, 12452, 12523, 24418,
     24335, 58, 32]"

definition UNSUPPORTED_SUFFIX :: pystr where
  "UNSUPPORTED_SUFFIX = [12290, 80, 68, 70, 44, 32, 77, 97, 114, 107, 100, 111, 119, 110,
     44, 32, 12486, 12461, 12473, 12488, 12395, 23550, 24540, 12375, 12390, 12356, 12414,
     12377, 12290]"

definition PROCESSED_SUFFIX :: pystr where
  "PROCESSED_SUFFIX = [32, 12434, 27491, 24120, 12395, 20966, 29702, 12375, 12414, 12375,
     12383]"

definition SUPPORTED_SUFFIXES :: "pystr list" where
  "SUPPORTED_SUFFIXES = [ascii ''.pdf'', ascii ''.md'', ascii ''.txt'']"

definition file_suffix :: "'w upload_env \<Rightarrow> UploadFile \<Rightarrow> pystr" where
  "file_suffix env file =
     str_lower env (path_suffix env (case filename file of None \<Rightarrow> [] | Some f \<Rightarrow> f))"

definition upload_document ::
  "'w upload_env \<Rightarrow> Settings \<Rightarrow> UploadFile \<Rightarrow> 'w \<Rightarrow> (error + UploadResponse) \<times> 'w" where
  "upload_document env settings file w =
     (let suffix = file_suffix env file
      in if suffix \<notin> set SUPPORTED_SUFFIXES
         then (Inl (HTTPException 400 (UNSUPPORTED_PREFIX @ suffix @ UNSUPPORTED_SUFFIX)), w)
         else
           (case save_temp env (file_bytes file) suffix w of
              (Inl e, w1) \<Rightarrow> (Inl e, w1)
            | (Inr tmp_path, w1) \<Rightarrow>
                (case (if suffix = ascii ''.pdf'' then load_pdf env tmp_path w1
                       else load_markdown env tmp_path w1) of
                   (Inl e, w2) \<Rightarrow> (Inl e, w2)
                 | (Inr documents, w2) \<Rightarrow>
                     (case split_documents env documents (chunk_size settings)
                             (chunk_overlap settings) of
                        Inl e \<Rightarrow> (Inl e, w2)
                      | Inr chunks \<Rightarrow>
                          (case add_documents env chunks w2 of
                             (Inl e, w3) \<Rightarrow> (Inl e, w3)
                           | (Inr u, w3) \<Rightarrow>
                               (case unlink env tmp_path w3 of
                                  (Inl e, w4) \<Rightarrow> (Inl e, w4)
                                | (Inr u', w4) \<Rightarrow>
                                    (Inr \<lparr>message =
                                            (case filename file of
                                               None \<Rightarrow> ascii ''None''
                                             | Some f \<Rightarrow> f) @ PROCESSED_SUFFIX,
                                          document_count = length chunks\<rparr>, w4)))))))"

section \<open>Sample inputs\<close>

text \<open>The state of the scenarios in \<open>tests/test_agent.py\<close>, with the verdict and the
  iteration count left open.\<close>

definition scenario_state :: "bool \<Rightarrow> int \<Rightarrow> RAGAgentState" where
  "scenario_state b i =
     \<lparr>query = Some (ascii ''test''), search_queries = Some [], retrieved_documents = [],
      answer = Some (ascii ''answer''), is_sufficient = Some b,
      evaluation_reason = Some (ascii ''reason''), iteration = Some i\<rparr>"

section \<open>The loop decision\<close>

text \<open>
  C1. On any state, \<open>should_retry\<close> answers \<open>end\<close> when \<open>is_sufficient\<close> is true,
  whatever the iteration; \<open>end\<close> when the iteration has reached \<open>MAX_ITERATIONS = 3\<close>,
  whatever \<open>is_sufficient\<close>; and \<open>retry\<close> in every other case. An absent key counts as
  its default (\<open>False\<close>, \<open>0\<close>).
\<close>

theorem should_retry_decision:
  "MAX_ITERATIONS = 3 \<and>
   (get_is_sufficient state \<longrightarrow> should_retry state = ''end'') \<and>
   (get_iteration state \<ge> 3 \<longrightarrow> should_retry state = ''end'') \<and>
   (\<not> get_is_sufficient state \<and> get_iteration state < 3 \<longrightarrow> should_retry state = ''retry'')"
  by (simp add: should_retry_def MAX_ITERATIONS_def)

text \<open>The four scenarios of the tests: sufficient at 1, insufficient at 3, at 1, at 0.\<close>

theorem should_retry_decision_witness:
  "get_is_sufficient (scenario_state True 1) \<and> should_retry (scenario_state True 1) = ''end'' \<and>
   get_iteration (scenario_state False 3) \<ge> 3 \<and> should_retry (scenario_state False 3) = ''end'' \<and>
   \<not> get_is_sufficient (scenario_state False 1) \<and> get_iteration (scenario_state False 1) < 3 \<and>
   should_retry (scenario_state False 1) = ''retry'' \<and>
   should_retry (scenario_state False 0) = ''retry''"
  using should_retry_decision [of "scenario_state True 1"]
    should_retry_decision [of "scenario_state False 3"]
    should_retry_decision [of "scenario_state False 1"]
    should_retry_decision [of "scenario_state False 0"]
  by (simp add: scenario_state_def get_is_sufficient_def get_iteration_def)

end
